theory Spec2Isabelle
  imports Complex_Main
begin

section \<open>Strings\<close>

text \<open>
  The content script works on the text of table cells. A JavaScript string is modelled
  as a \<open>string\<close> of ASCII code units: \<open>toLowerCase\<close> maps \<open>A\<close>..\<open>Z\<close> to
  \<open>a\<close>..\<open>z\<close> and leaves every other unit alone, and \<open>trim\<close> strips the ASCII
  white space and line terminators (TAB, LF, VT, FF, CR, SP) from both ends.
\<close>

definition isWhiteSpace :: "char \<Rightarrow> bool" where
  "isWhiteSpace c \<longleftrightarrow> c \<in> set [CHR 0x09, CHR 0x0A, CHR 0x0B, CHR 0x0C, CHR 0x0D, CHR 0x20]"

definition trim :: "string \<Rightarrow> string" where
  "trim s = rev (dropWhile isWhiteSpace (rev (dropWhile isWhiteSpace s)))"

definition toLowerChar :: "char \<Rightarrow> char" where
  "toLowerChar c =
     (case map_of (zip ''ABCDEFGHIJKLMNOPQRSTUVWXYZ'' ''abcdefghijklmnopqrstuvwxyz'') c of
        Some l \<Rightarrow> l
      | None \<Rightarrow> c)"

definition toLowerCase :: "string \<Rightarrow> string" where
  "toLowerCase s = map toLowerChar s"

fun startsWith :: "string \<Rightarrow> string \<Rightarrow> bool" where
  "startsWith s [] = True"
| "startsWith [] (p # ps) = False"
| "startsWith (c # cs) (p # ps) = (c = p \<and> startsWith cs ps)"

text \<open>\<open>includesStr s t\<close> is \<open>s.includes(t)\<close>: \<open>t\<close> occurs in \<open>s\<close> as a contiguous run.\<close>

fun includesStr :: "string \<Rightarrow> string \<Rightarrow> bool" where
  "includesStr [] t = (t = [])"
| "includesStr (c # cs) t = (startsWith (c # cs) t \<or> includesStr cs t)"

definition isDigit :: "char \<Rightarrow> bool" where
  "isDigit c \<longleftrightarrow> c \<in> set ''0123456789''"

definition digitVal :: "char \<Rightarrow> nat" where
  "digitVal c = of_char c - 48"

definition digitsVal :: "string \<Rightarrow> nat" where
  "digitsVal ds = foldl (\<lambda>a c. 10 * a + digitVal c) 0 ds"

fun digitsOf :: "nat \<Rightarrow> string" where
  "digitsOf n =
     (if n < 10 then [''0123456789'' ! n]
      else digitsOf (n div 10) @ [''0123456789'' ! (n mod 10)])"

declare digitsOf.simps [simp del]

section \<open>Numbers and values\<close>

text \<open>
  A JavaScript Number is modelled as an exact rational or one of the three special
  values. Finite doubles are taken as the rationals they denote: rounding to binary64,
  overflow to Infinity and the sign of zero are outside the model (the sign of zero is
  observable only through a division by zero, which every formula below guards).
\<close>

datatype jsnum = Fin rat | PInf | NInf | NaN

fun nadd :: "jsnum \<Rightarrow> jsnum \<Rightarrow> jsnum" where
  "nadd (Fin a) (Fin b) = Fin (a + b)"
| "nadd NaN y = NaN"
| "nadd x NaN = NaN"
| "nadd PInf NInf = NaN"
| "nadd NInf PInf = NaN"
| "nadd PInf y = PInf"
| "nadd x PInf = PInf"
| "nadd NInf y = NInf"
| "nadd x NInf = NInf"

text \<open>\<open>ngt0 x\<close> is the comparison \<open>x > 0\<close>, false for NaN.\<close>

fun ngt0 :: "jsnum \<Rightarrow> bool" where
  "ngt0 (Fin a) = (0 < a)"
| "ngt0 PInf = True"
| "ngt0 NInf = False"
| "ngt0 NaN = False"

text \<open>The global \<open>isFinite\<close>: false for NaN and for both infinities.\<close>

fun isFinite :: "jsnum \<Rightarrow> bool" where
  "isFinite (Fin a) = True"
| "isFinite x = False"

fun nneg :: "jsnum \<Rightarrow> bool" where
  "nneg (Fin a) = (a < 0)"
| "nneg PInf = False"
| "nneg NInf = True"
| "nneg NaN = False"

fun ndiv :: "jsnum \<Rightarrow> jsnum \<Rightarrow> jsnum" where
  "ndiv (Fin a) (Fin b) =
     (if b \<noteq> 0 then Fin (a / b)
      else if 0 < a then PInf else if a < 0 then NInf else NaN)"
| "ndiv NaN y = NaN"
| "ndiv x NaN = NaN"
| "ndiv (Fin a) y = Fin 0"
| "ndiv x (Fin b) = (if nneg x = (b < 0) then PInf else NInf)"
| "ndiv x y = NaN"

fun nmul :: "jsnum \<Rightarrow> jsnum \<Rightarrow> jsnum" where
  "nmul (Fin a) (Fin b) = Fin (a * b)"
| "nmul NaN y = NaN"
| "nmul x NaN = NaN"
| "nmul (Fin a) y = (if a = 0 then NaN else if nneg y = (a < 0) then PInf else NInf)"
| "nmul x (Fin b) = (if b = 0 then NaN else if nneg x = (b < 0) then PInf else NInf)"
| "nmul x y = (if nneg x = nneg y then PInf else NInf)"

text \<open>\<open>orZero x\<close> is \<open>x || 0\<close> on a Number: the falsy numbers are 0 and NaN.\<close>

definition orZero :: "jsnum \<Rightarrow> jsnum" where
  "orZero x = (if x = Fin 0 \<or> x = NaN then Fin 0 else x)"

datatype jsval = JUndefined | JNull | JBool bool | JNumber jsnum | JString string

fun falsy :: "jsval \<Rightarrow> bool" where
  "falsy JUndefined = True"
| "falsy JNull = True"
| "falsy (JBool b) = (\<not> b)"
| "falsy (JNumber n) = (n = Fin 0 \<or> n = NaN)"
| "falsy (JString s) = (s = [])"

fun isString :: "jsval \<Rightarrow> bool" where
  "isString (JString s) = True"
| "isString v = False"

subsection \<open>parseFloat\<close>

text \<open>
  \<open>parseFloat\<close> skips leading white space and reads the longest prefix that is a
  \<open>StrDecimalLiteral\<close>: an optional sign, then \<open>Infinity\<close> or digits with an optional
  fraction and an optional exponent. With no such prefix the result is NaN.
\<close>

definition signOf :: "string \<Rightarrow> bool \<times> string" where
  "signOf s =
     (case s of
        [] \<Rightarrow> (False, [])
      | c # r \<Rightarrow>
          if c = CHR ''-'' then (True, r)
          else if c = CHR ''+'' then (False, r)
          else (False, s))"

definition exponentPart :: "string \<Rightarrow> int" where
  "exponentPart r =
     (case r of
        [] \<Rightarrow> 0
      | c # t \<Rightarrow>
          if c = CHR ''e'' \<or> c = CHR ''E'' then
            (let ds = takeWhile isDigit (snd (signOf t)) in
               if ds = [] then 0
               else if fst (signOf t) then - int (digitsVal ds) else int (digitsVal ds))
          else 0)"

definition scale10 :: "int \<Rightarrow> rat" where
  "scale10 e = (if 0 \<le> e then 10 ^ nat e else 1 / 10 ^ nat (- e))"

definition parseFloat :: "string \<Rightarrow> jsnum" where
  "parseFloat s =
     (let neg = fst (signOf (dropWhile isWhiteSpace s));
          r = snd (signOf (dropWhile isWhiteSpace s))
      in if startsWith r ''Infinity'' then (if neg then NInf else PInf)
         else
           (let ip = takeWhile isDigit r;
                r1 = dropWhile isDigit r;
                fp = (case r1 of [] \<Rightarrow> []
                      | c # t \<Rightarrow> if c = CHR ''.'' then takeWhile isDigit t else []);
                r2 = (case r1 of [] \<Rightarrow> []
                      | c # t \<Rightarrow> if c = CHR ''.'' then dropWhile isDigit t else r1)
            in if ip = [] \<and> fp = [] then NaN
               else
                 (let m = of_nat (digitsVal ip) + of_nat (digitsVal fp) / 10 ^ length fp;
                      v = m * scale10 (exponentPart r2)
                  in Fin (if neg then - v else v))))"

subsection \<open>parseNum and formatPct\<close>

definition parseNum :: "jsval \<Rightarrow> jsnum" where
  "parseNum str =
     (if falsy str \<or> \<not> isString str then Fin 0
      else
        (case str of
           JString s \<Rightarrow>
             (let clean = trim (filter (\<lambda>c. c \<notin> set ''%$,'') s);
                  num = parseFloat clean
              in if num = NaN then Fin 0 else num)
         | _ \<Rightarrow> Fin 0))"

text \<open>
  \<open>Number.prototype.toFixed\<close> and Number-to-String conversion. The decimal digits that
  the engine prints for a finite value that is not an integer, or whose magnitude is at
  least \<open>10^21\<close>, depend on the binary64 representation: they are the parameter
  \<open>toStr\<close> of every function that prints a Number.
\<close>

definition toFixed :: "(rat \<Rightarrow> string) \<Rightarrow> nat \<Rightarrow> jsnum \<Rightarrow> string" where
  "toFixed toStr f x =
     (case x of
        NaN \<Rightarrow> ''NaN''
      | PInf \<Rightarrow> ''Infinity''
      | NInf \<Rightarrow> ''-Infinity''
      | Fin q \<Rightarrow>
          (let s = (if q < 0 then ''-'' else []); a = \<bar>q\<bar>
           in if 10 ^ 21 \<le> a then s @ toStr a
              else
                (let n = nat \<lfloor>a * 10 ^ f + 1 / 2\<rfloor>; m = digitsOf n
                 in if f = 0 then s @ m
                    else
                      (let m' = (if length m \<le> f
                                 then replicate (f + 1 - length m) CHR ''0'' @ m else m);
                           k = length m'
                       in s @ take (k - f) m' @ ''.'' @ drop (k - f) m'))))"

definition numberToString :: "(rat \<Rightarrow> string) \<Rightarrow> jsnum \<Rightarrow> string" where
  "numberToString toStr x =
     (case x of
        NaN \<Rightarrow> ''NaN''
      | PInf \<Rightarrow> ''Infinity''
      | NInf \<Rightarrow> ''-Infinity''
      | Fin q \<Rightarrow>
          if q = of_int \<lfloor>q\<rfloor> \<and> \<bar>q\<bar> < 10 ^ 21
          then (if q < 0 then ''-'' else []) @ digitsOf (nat \<bar>\<lfloor>q\<rfloor>\<bar>)
          else toStr q)"

text \<open>The dash that \<open>formatPct\<close> prints is U+2014, here as its three UTF-8 bytes.\<close>

definition emDash :: string where
  "emDash = [CHR 0xE2, CHR 0x80, CHR 0x94]"

definition formatPct :: "(rat \<Rightarrow> string) \<Rightarrow> jsnum \<Rightarrow> string" where
  "formatPct toStr num =
     (if num = NaN \<or> \<not> isFinite num then emDash
      else toFixed toStr 2 num @ ''%'')"

section \<open>Header Matcher\<close>

fun matchesAnyTerm :: "string \<Rightarrow> string list \<Rightarrow> bool" where
  "matchesAnyTerm headerText [] = False"
| "matchesAnyTerm headerText (t # ts) =
     (if includesStr headerText (toLowerCase t) then True else matchesAnyTerm headerText ts)"

fun findColumnIndexFrom :: "int \<Rightarrow> string list \<Rightarrow> string list \<Rightarrow> int" where
  "findColumnIndexFrom i [] searchTerms = - 1"
| "findColumnIndexFrom i (h # hs) searchTerms =
     (if matchesAnyTerm (trim (toLowerCase h)) searchTerms then i
      else findColumnIndexFrom (i + 1) hs searchTerms)"

definition findColumnIndex :: "string list \<Rightarrow> string list \<Rightarrow> int" where
  "findColumnIndex headers searchTerms = findColumnIndexFrom 0 headers searchTerms"

text \<open>\<open>Array.prototype.findIndex\<close>, with the sentinel \<open>-1\<close>.\<close>

fun findIndexFrom :: "int \<Rightarrow> ('a \<Rightarrow> bool) \<Rightarrow> 'a list \<Rightarrow> int" where
  "findIndexFrom i p [] = - 1"
| "findIndexFrom i p (x # xs) = (if p x then i else findIndexFrom (i + 1) p xs)"

definition findIndex :: "('a \<Rightarrow> bool) \<Rightarrow> 'a list \<Rightarrow> int" where
  "findIndex p xs = findIndexFrom 0 p xs"

text \<open>
  The matcher as the specification words it, for comparison with \<open>findColumnIndex\<close>:
  each candidate term is tested across all headers before the next candidate is tried.
\<close>

fun candidateFirstIndex :: "string list \<Rightarrow> string list \<Rightarrow> int" where
  "candidateFirstIndex headers [] = - 1"
| "candidateFirstIndex headers (t # ts) =
     (if findIndex (\<lambda>h. includesStr (trim (toLowerCase h)) (toLowerCase t)) headers \<noteq> - 1
      then findIndex (\<lambda>h. includesStr (trim (toLowerCase h)) (toLowerCase t)) headers
      else candidateFirstIndex headers ts)"

section \<open>Tables and configuration\<close>

text \<open>
  A table snapshot: the \<open>innerText\<close> of the \<open>th\<close> cells of the first header row
  (\<open>None\<close> when the table has no \<open>thead tr\<close>) and, for each body row, the
  \<open>innerText\<close> of its \<open>td\<close> cells. Styling, titles and classes are not part of it.
\<close>

record table =
  headerRow :: "string list option"
  bodyRows :: "string list list"

text \<open>\<open>cells[idx]?.innerText\<close>: undefined when the row has no cell at \<open>idx\<close>.\<close>

definition cellText :: "string list \<Rightarrow> int \<Rightarrow> jsval" where
  "cellText cells idx =
     (if 0 \<le> idx \<and> idx < int (length cells) then JString (cells ! nat idx) else JUndefined)"

text \<open>\<open>cells[idx]?.innerText.trim() || fallback\<close>.\<close>

definition cellTrimOr :: "string list \<Rightarrow> int \<Rightarrow> string \<Rightarrow> string" where
  "cellTrimOr cells idx fallback =
     (if 0 \<le> idx \<and> idx < int (length cells)
      then (if trim (cells ! nat idx) = [] then fallback else trim (cells ! nat idx))
      else fallback)"

text \<open>\<open>INSIGHT_CONFIG.lensedColumns\<close> and \<open>INSIGHT_CONFIG.columns\<close>.\<close>

record lensedColumns =
  apptContacts :: bool
  apptCalls :: bool
  lxferContacts :: bool
  lxferCalls :: bool
  successContacts :: bool
  successCalls :: bool

definition defaultLensedColumns :: lensedColumns where
  "defaultLensedColumns =
     \<lparr>apptContacts = True, apptCalls = True, lxferContacts = True, lxferCalls = True,
      successContacts = True, successCalls = True\<rparr>"

definition columns_contacts :: "string list" where
  "columns_contacts = [''contacts'', ''contact'']"

definition columns_appt :: "string list" where
  "columns_appt =
     [''appt'', ''status '' @ [CHR 0x27] @ ''appt'',
      ''status '' @ [CHR 0x27] @ ''appt - appointment scheduled'' @ [CHR 0x27],
      ''appointment'']"

definition columns_lxfer :: "string list" where
  "columns_lxfer =
     [''lxfer'', ''status '' @ [CHR 0x27] @ ''lxfer'',
      ''status '' @ [CHR 0x27] @ ''lxfer - live transfer'' @ [CHR 0x27],
      ''live transfer'']"

definition columns_success :: "string list" where
  "columns_success = [''success'', ''all success'', ''total success'']"

definition columns_dialed :: "string list" where
  "columns_dialed = [''dialed'']"

section \<open>Column Injector\<close>

record insertion =
  afterIdx :: int
  headerText :: string
  headerTitle :: string
  metricType :: string
  calculate :: "string list \<Rightarrow> jsnum"
  cssClass :: string
  lensedKey :: string

text \<open>
  The insertion requests of \<open>processTable\<close>, in the order the source pushes them:
  SUCCESS, LXFER, APPT, and for each the \<open>(D)\<close> request before the \<open>(C)\<close> one.
\<close>

definition buildInsertions ::
  "lensedColumns \<Rightarrow> int \<Rightarrow> int \<Rightarrow> int \<Rightarrow> int \<Rightarrow> int \<Rightarrow> insertion list" where
  "buildInsertions cfg contactsIdx apptIdx lxferIdx successIdx dialedIdx =
     (if successIdx \<noteq> - 1 then
        (if dialedIdx \<noteq> - 1 \<and> successCalls cfg then
           [\<lparr>afterIdx = successIdx, headerText = ''SUCCESS%(D)'',
             headerTitle = ''All Success % of Dialed (Calls)'', metricType = ''success'',
             calculate = (\<lambda>cells.
               let dialed = parseNum (cellText cells dialedIdx);
                   success = parseNum (cellText cells successIdx)
               in if ngt0 dialed then nmul (ndiv success dialed) (Fin 100) else Fin 0),
             cssClass = ''insight-calc-col insight-success-calls'',
             lensedKey = ''successCalls''\<rparr>]
         else []) @
        (if contactsIdx \<noteq> - 1 \<and> successContacts cfg then
           [\<lparr>afterIdx = successIdx, headerText = ''SUCCESS%(C)'',
             headerTitle = ''All Success % of Contacts'', metricType = ''success'',
             calculate = (\<lambda>cells.
               let contacts = parseNum (cellText cells contactsIdx);
                   success = parseNum (cellText cells successIdx)
               in if ngt0 contacts then nmul (ndiv success contacts) (Fin 100) else Fin 0),
             cssClass = ''insight-calc-col insight-success-contacts'',
             lensedKey = ''successContacts''\<rparr>]
         else [])
      else []) @
     (if lxferIdx \<noteq> - 1 then
        (if dialedIdx \<noteq> - 1 \<and> lxferCalls cfg then
           [\<lparr>afterIdx = lxferIdx, headerText = ''LXFER%(D)'',
             headerTitle = ''LXFER % of Dialed (Calls)'', metricType = ''lxfer'',
             calculate = (\<lambda>cells.
               let dialed = parseNum (cellText cells dialedIdx);
                   lxfer = parseNum (cellText cells lxferIdx)
               in if ngt0 dialed then nmul (ndiv lxfer dialed) (Fin 100) else Fin 0),
             cssClass = ''insight-calc-col insight-lxfer-calls'',
             lensedKey = ''lxferCalls''\<rparr>]
         else []) @
        (if contactsIdx \<noteq> - 1 \<and> lxferContacts cfg then
           [\<lparr>afterIdx = lxferIdx, headerText = ''LXFER%(C)'',
             headerTitle = ''LXFER % of Contacts'', metricType = ''lxfer'',
             calculate = (\<lambda>cells.
               let contacts = parseNum (cellText cells contactsIdx);
                   lxfer = parseNum (cellText cells lxferIdx)
               in if ngt0 contacts then nmul (ndiv lxfer contacts) (Fin 100) else Fin 0),
             cssClass = ''insight-calc-col insight-lxfer-contacts'',
             lensedKey = ''lxferContacts''\<rparr>]
         else [])
      else []) @
     (if apptIdx \<noteq> - 1 then
        (if dialedIdx \<noteq> - 1 \<and> apptCalls cfg then
           [\<lparr>afterIdx = apptIdx, headerText = ''APPT%(D)'',
             headerTitle = ''APPT % of Dialed (Calls)'', metricType = ''appt'',
             calculate = (\<lambda>cells.
               let dialed = parseNum (cellText cells dialedIdx);
                   appt = parseNum (cellText cells apptIdx)
               in if ngt0 dialed then nmul (ndiv appt dialed) (Fin 100) else Fin 0),
             cssClass = ''insight-calc-col insight-appt-calls'',
             lensedKey = ''apptCalls''\<rparr>]
         else []) @
        (if contactsIdx \<noteq> - 1 \<and> apptContacts cfg then
           [\<lparr>afterIdx = apptIdx, headerText = ''APPT%(C)'',
             headerTitle = ''APPT % of Contacts'', metricType = ''appt'',
             calculate = (\<lambda>cells.
               let contacts = parseNum (cellText cells contactsIdx);
                   appt = parseNum (cellText cells apptIdx)
               in if ngt0 contacts then nmul (ndiv appt contacts) (Fin 100) else Fin 0),
             cssClass = ''insight-calc-col insight-appt-contacts'',
             lensedKey = ''apptContacts''\<rparr>]
         else [])
      else [])"

text \<open>
  The live row while cells are inserted. A node carries the index its cell had in the
  array taken before the insertions (\<open>None\<close> for a cell created by the injector), so
  that \<open>cells[afterIdx]\<close> names the same element however many cells were inserted
  before it.
\<close>

type_synonym node = "int option \<times> string"

definition liveRow :: "string list \<Rightarrow> node list" where
  "liveRow cells = map (\<lambda>i. (Some (int i), cells ! i)) [0..<length cells]"

text \<open>
  \<open>insertAfterCell k new row\<close>: with \<open>afterCell = cells[k]\<close>, the new cell goes before
  \<open>afterCell.nextSibling\<close>; it is appended when \<open>afterCell\<close> is undefined (no node
  carries \<open>k\<close>) or is the last child of the row.
\<close>

fun insertAfterCell :: "int \<Rightarrow> string \<Rightarrow> node list \<Rightarrow> node list" where
  "insertAfterCell k new [] = [(None, new)]"
| "insertAfterCell k new (n # ns) =
     (if fst n = Some k then n # (None, new) # ns else n # insertAfterCell k new ns)"

definition injectHeaderCells :: "insertion list \<Rightarrow> string list \<Rightarrow> string list" where
  "injectHeaderCells insertions headerCells =
     map snd (foldl (\<lambda>row ins. insertAfterCell (afterIdx ins) (headerText ins) row)
                (liveRow headerCells) insertions)"

definition injectRowCells ::
  "(rat \<Rightarrow> string) \<Rightarrow> insertion list \<Rightarrow> string list \<Rightarrow> string list" where
  "injectRowCells toStr insertions cells =
     (if length cells = 0 then cells
      else map snd (foldl (\<lambda>row ins.
                       insertAfterCell (afterIdx ins) (formatPct toStr (calculate ins cells)) row)
                     (liveRow cells) insertions))"

definition alreadyInjected :: "string list \<Rightarrow> bool" where
  "alreadyInjected headers =
     list_ex (\<lambda>h. includesStr h ''APPT%(C)'' \<or> includesStr h ''LXFER%(C)''
                \<or> includesStr h ''SUCCESS%(C)'') headers"

text \<open>
  \<open>processTable\<close> takes the table and the flag \<open>columnsInjected\<close> and returns both.
  \<open>Array.prototype.sort\<close> is stable, as \<open>sort_key\<close> is.
\<close>

definition processTable ::
  "(rat \<Rightarrow> string) \<Rightarrow> lensedColumns \<Rightarrow> table \<times> bool \<Rightarrow> table \<times> bool" where
  "processTable toStr cfg st =
     (case headerRow (fst st) of
        None \<Rightarrow> st
      | Some headerCells \<Rightarrow>
          (let headers = map trim headerCells
           in if alreadyInjected headers then st
              else
                (let contactsIdx = findColumnIndex headers columns_contacts;
                     apptIdx = findColumnIndex headers columns_appt;
                     lxferIdx = findColumnIndex headers columns_lxfer;
                     successIdx = findColumnIndex headers columns_success;
                     dialedIdx = findColumnIndex headers columns_dialed
                 in if contactsIdx = - 1 \<and> dialedIdx = - 1 then st
                    else
                      (let insertions =
                             buildInsertions cfg contactsIdx apptIdx lxferIdx successIdx dialedIdx
                       in if length insertions = 0 then st
                          else
                            (let sorted = sort_key (\<lambda>ins. - afterIdx ins) insertions
                             in (\<lparr>headerRow = Some (injectHeaderCells sorted headerCells),
                                  bodyRows = map (injectRowCells toStr sorted) (bodyRows (fst st))\<rparr>,
                                 True))))))"

section \<open>Aggregation Extractor\<close>

record counters =
  dialed :: jsnum
  contacts :: jsnum
  appt :: jsnum
  lxfer :: jsnum
  success :: jsnum

definition zeroCounters :: counters where
  "zeroCounters = \<lparr>dialed = Fin 0, contacts = Fin 0, appt = Fin 0, lxfer = Fin 0, success = Fin 0\<rparr>"

text \<open>
  The per-agent object \<open>{lists, totals}\<close> and the result \<open>{agents, lists}\<close>. A
  \<open>Map\<close> is an association list in insertion order with one entry per key, a
  \<open>Set\<close> a list in insertion order; the fields \<open>lists\<close> are named \<open>byList\<close> and
  \<open>listNames\<close> here.
\<close>

record agentData =
  byList :: "(string \<times> counters) list"
  totals :: counters

record tableData =
  agents :: "(string \<times> agentData) list"
  listNames :: "string list"

definition setAdd :: "'a \<Rightarrow> 'a list \<Rightarrow> 'a list" where
  "setAdd x xs = (if x \<in> set xs then xs else xs @ [x])"

text \<open>
  \<open>upsert k d f m\<close>: \<open>if (!m.has(k)) m.set(k, d)\<close>, then the object \<open>m.get(k)\<close> is
  mutated by \<open>f\<close>.
\<close>

fun upsert :: "'k \<Rightarrow> 'v \<Rightarrow> ('v \<Rightarrow> 'v) \<Rightarrow> ('k \<times> 'v) list \<Rightarrow> ('k \<times> 'v) list" where
  "upsert k d f [] = [(k, f d)]"
| "upsert k d f (e # m) = (if fst e = k then (fst e, f (snd e)) # m else e # upsert k d f m)"

definition addCounters :: "counters \<Rightarrow> counters \<Rightarrow> counters" where
  "addCounters a b =
     \<lparr>dialed = nadd (dialed a) (dialed b), contacts = nadd (contacts a) (contacts b),
      appt = nadd (appt a) (appt b), lxfer = nadd (lxfer a) (lxfer b),
      success = nadd (success a) (success b)\<rparr>"

definition extractRow ::
  "int \<Rightarrow> int \<Rightarrow> int \<Rightarrow> int \<Rightarrow> int \<Rightarrow> int \<Rightarrow> int \<Rightarrow> tableData \<Rightarrow> string list \<Rightarrow> tableData" where
  "extractRow userIdx listIdx dialedIdx contactsIdx apptIdx lxferIdx successIdx acc cells =
     (if length cells < 3 then acc
      else
        (let agentName = cellTrimOr cells userIdx ''Unknown'';
             listName = (if listIdx \<noteq> - 1 then cellTrimOr cells listIdx ''Default'' else ''All'');
             row = \<lparr>dialed = (if dialedIdx \<noteq> - 1 then parseNum (cellText cells dialedIdx) else Fin 0),
                    contacts = (if contactsIdx \<noteq> - 1 then parseNum (cellText cells contactsIdx) else Fin 0),
                    appt = (if apptIdx \<noteq> - 1 then parseNum (cellText cells apptIdx) else Fin 0),
                    lxfer = (if lxferIdx \<noteq> - 1 then parseNum (cellText cells lxferIdx) else Fin 0),
                    success = (if successIdx \<noteq> - 1 then parseNum (cellText cells successIdx) else Fin 0)\<rparr>
         in \<lparr>agents =
               upsert agentName \<lparr>byList = [], totals = zeroCounters\<rparr>
                 (\<lambda>agentData.
                    \<lparr>byList = upsert listName zeroCounters (\<lambda>listData. addCounters listData row)
                                (byList agentData),
                     totals = addCounters (totals agentData) row\<rparr>)
                 (agents acc),
             listNames = setAdd listName (listNames acc)\<rparr>))"

definition extractTable :: "tableData \<Rightarrow> table \<Rightarrow> tableData" where
  "extractTable acc t =
     (case headerRow t of
        None \<Rightarrow> acc
      | Some headerCells \<Rightarrow>
          (let headers = map (\<lambda>th. toLowerCase (trim th)) headerCells;
               userIdx = findIndex (\<lambda>h. h = ''user'' \<or> h = ''agent'') headers;
               listIdx = findIndex (\<lambda>h. includesStr h ''list'') headers;
               dialedIdx = findColumnIndex headers [''dialed''];
               contactsIdx = findColumnIndex headers [''contacts'', ''contact''];
               apptIdx = findColumnIndex headers [''appt'', ''appointment''];
               lxferIdx = findColumnIndex headers [''lxfer'', ''live transfer''];
               successIdx = findColumnIndex headers [''success'', ''all success'', ''total success'']
           in if userIdx = - 1 then acc
              else foldl (extractRow userIdx listIdx dialedIdx contactsIdx apptIdx lxferIdx successIdx)
                     acc (bodyRows t)))"

text \<open>The tables of the document, in document order, are the argument.\<close>

definition extractAllTableData :: "table list \<Rightarrow> tableData" where
  "extractAllTableData tables = foldl extractTable \<lparr>agents = [], listNames = []\<rparr> tables"


section \<open>Pivot Renderer and CSV Serializer\<close>

record metrics =
  contactPct :: jsnum
  apptPctC :: jsnum
  lxferPctC :: jsnum
  successPctC :: jsnum
  apptPctD :: jsnum
  lxferPctD :: jsnum
  successPctD :: jsnum

text \<open>
  \<open>renderMetricCells\<close> in two steps: the constants it computes first, then the cells.
  The result is the text of the twelve \<open>td\<close> cells in order; \<open>addDivider\<close> only sets
  the class of the first cell. The function reads \<open>data.success\<close> only as
  \<open>data.success || 0\<close>, so an object without that property is the tuple with
  \<open>success = 0\<close>.
\<close>

definition renderMetricValues :: "counters \<Rightarrow> metrics" where
  "renderMetricValues data =
     \<lparr>contactPct = (if ngt0 (dialed data) then nmul (ndiv (contacts data) (dialed data)) (Fin 100) else Fin 0),
      apptPctC = (if ngt0 (contacts data) then nmul (ndiv (appt data) (contacts data)) (Fin 100) else Fin 0),
      lxferPctC = (if ngt0 (contacts data) then nmul (ndiv (lxfer data) (contacts data)) (Fin 100) else Fin 0),
      successPctC = (if ngt0 (contacts data)
                     then nmul (ndiv (orZero (success data)) (contacts data)) (Fin 100) else Fin 0),
      apptPctD = (if ngt0 (dialed data) then nmul (ndiv (appt data) (dialed data)) (Fin 100) else Fin 0),
      lxferPctD = (if ngt0 (dialed data) then nmul (ndiv (lxfer data) (dialed data)) (Fin 100) else Fin 0),
      successPctD = (if ngt0 (dialed data)
                     then nmul (ndiv (orZero (success data)) (dialed data)) (Fin 100) else Fin 0)\<rparr>"

definition renderMetricCells :: "(rat \<Rightarrow> string) \<Rightarrow> counters \<Rightarrow> bool \<Rightarrow> string list" where
  "renderMetricCells toStr data addDivider =
     (let m = renderMetricValues data
      in [numberToString toStr (dialed data),
          numberToString toStr (contacts data),
          toFixed toStr 1 (contactPct m) @ ''%'',
          numberToString toStr (appt data),
          toFixed toStr 1 (apptPctC m) @ ''%'',
          toFixed toStr 1 (apptPctD m) @ ''%'',
          numberToString toStr (lxfer data),
          toFixed toStr 1 (lxferPctC m) @ ''%'',
          toFixed toStr 1 (lxferPctD m) @ ''%'',
          numberToString toStr (orZero (success data)),
          toFixed toStr 1 (successPctC m) @ ''%'',
          toFixed toStr 1 (successPctD m) @ ''%''])"

text \<open>The body of the inner loop of \<open>exportCSV\<close>: its constants, then the row it appends.\<close>

definition csvMetricValues :: "counters \<Rightarrow> metrics" where
  "csvMetricValues listData =
     \<lparr>contactPct = (if ngt0 (dialed listData)
                    then nmul (ndiv (contacts listData) (dialed listData)) (Fin 100) else Fin 0),
      apptPctC = (if ngt0 (contacts listData)
                  then nmul (ndiv (appt listData) (contacts listData)) (Fin 100) else Fin 0),
      lxferPctC = (if ngt0 (contacts listData)
                   then nmul (ndiv (lxfer listData) (contacts listData)) (Fin 100) else Fin 0),
      successPctC = (if ngt0 (contacts listData)
                     then nmul (ndiv (orZero (success listData)) (contacts listData)) (Fin 100)
                     else Fin 0),
      apptPctD = (if ngt0 (dialed listData)
                  then nmul (ndiv (appt listData) (dialed listData)) (Fin 100) else Fin 0),
      lxferPctD = (if ngt0 (dialed listData)
                   then nmul (ndiv (lxfer listData) (dialed listData)) (Fin 100) else Fin 0),
      successPctD = (if ngt0 (dialed listData)
                     then nmul (ndiv (orZero (success listData)) (dialed listData)) (Fin 100)
                     else Fin 0)\<rparr>"

text \<open>The twelve numeric fields of a CSV row, in order.\<close>

definition csvFields :: "(rat \<Rightarrow> string) \<Rightarrow> counters \<Rightarrow> string list" where
  "csvFields toStr listData =
     (let m = csvMetricValues listData
      in [numberToString toStr (dialed listData),
          numberToString toStr (contacts listData),
          toFixed toStr 2 (contactPct m) @ ''%'',
          numberToString toStr (appt listData),
          toFixed toStr 2 (apptPctC m) @ ''%'',
          toFixed toStr 2 (apptPctD m) @ ''%'',
          numberToString toStr (lxfer listData),
          toFixed toStr 2 (lxferPctC m) @ ''%'',
          toFixed toStr 2 (lxferPctD m) @ ''%'',
          numberToString toStr (orZero (success listData)),
          toFixed toStr 2 (successPctC m) @ ''%'',
          toFixed toStr 2 (successPctD m) @ ''%''])"






section \<open>The specification's formulas and shapes\<close>

text \<open>
  The Metric Computer formula as the specification writes it:
  \<open>pct(numerator, denominator) = denominator > 0 ? (numerator / denominator) * 100 : 0\<close>.
\<close>

definition spec_pct :: "jsnum \<Rightarrow> jsnum \<Rightarrow> jsnum" where
  "spec_pct numerator denominator =
     (if ngt0 denominator then nmul (ndiv numerator denominator) (Fin 100) else Fin 0)"







section \<open>Example tables\<close>


text \<open>Scenario 3: the agent Bob in two tables, under list A and under list B.\<close>

definition bobListA :: table where
  "bobListA = \<lparr>headerRow = Some [''User'', ''List'', ''Dialed''], bodyRows = [[''Bob'', ''A'', ''10'']]\<rparr>"

definition bobListB :: table where
  "bobListB = \<lparr>headerRow = Some [''User'', ''List'', ''Dialed''], bodyRows = [[''Bob'', ''B'', ''20'']]\<rparr>"

text \<open>A table with an agent column and no list column.\<close>

definition noListTable :: table where
  "noListTable =
     \<lparr>headerRow = Some [''User'', ''Dialed'', ''Contacts''], bodyRows = [[''Bob'', ''10'', ''4'']]\<rparr>"

text \<open>A table whose agent header contains the word but is not equal to it.\<close>

definition agentNameTable :: table where
  "agentNameTable =
     \<lparr>headerRow = Some [''Agent Name'', ''List'', ''Dialed''], bodyRows = [[''Bob'', ''A'', ''10'']]\<rparr>"

text \<open>
  A table where only the dialed denominator resolves, with a full row, a row of one
  cell and a row of no cells.
\<close>

definition dialedOnlyTable :: table where
  "dialedOnlyTable =
     \<lparr>headerRow = Some [''User'', ''Dialed'', ''APPT''],
      bodyRows = [[''Bob'', ''50'', ''3''], [''Al''], []]\<rparr>"

section \<open>Header Matcher: proofs\<close>

lemma startsWith_iff: "startsWith s t \<longleftrightarrow> (\<exists>q. s = t @ q)"
  by (induction s t rule: startsWith.induct) auto

lemma includesStr_iff: "includesStr s t \<longleftrightarrow> (\<exists>p q. s = p @ t @ q)"
proof (induction s)
  case Nil
  then show ?case by simp
next
  case (Cons c cs)
  show ?case
  proof
    assume "includesStr (c # cs) t"
    then consider "startsWith (c # cs) t" | "includesStr cs t" by auto
    then show "\<exists>p q. c # cs = p @ t @ q"
    proof cases
      case 1
      then obtain q where "c # cs = t @ q" by (auto simp: startsWith_iff)
      then have "c # cs = [] @ t @ q" by simp
      then show ?thesis by blast
    next
      case 2
      then obtain p q where "cs = p @ t @ q" using Cons.IH by blast
      then have "c # cs = (c # p) @ t @ q" by simp
      then show ?thesis by blast
    qed
  next
    assume "\<exists>p q. c # cs = p @ t @ q"
    then obtain p q where pq: "c # cs = p @ t @ q" by blast
    show "includesStr (c # cs) t"
    proof (cases p)
      case Nil
      with pq have "startsWith (c # cs) t" by (auto simp: startsWith_iff)
      then show ?thesis by simp
    next
      case (Cons a p')
      with pq have "cs = p' @ t @ q" by simp
      then have "includesStr cs t" using Cons.IH by blast
      then show ?thesis by simp
    qed
  qed
qed

lemma matchesAnyTerm_iff:
  "matchesAnyTerm h ts \<longleftrightarrow> (\<exists>t \<in> set ts. includesStr h (toLowerCase t))"
  by (induction ts) auto

lemma findColumnIndexFrom_none:
  "0 \<le> i \<Longrightarrow> findColumnIndexFrom i hs ts = - 1 \<longleftrightarrow>
     (\<forall>h \<in> set hs. \<not> matchesAnyTerm (trim (toLowerCase h)) ts)"
  by (induction hs arbitrary: i) auto

lemma findColumnIndexFrom_first:
  "0 \<le> i \<Longrightarrow> findColumnIndexFrom i hs ts \<noteq> - 1 \<Longrightarrow>
     \<exists>k < length hs. findColumnIndexFrom i hs ts = i + int k
        \<and> matchesAnyTerm (trim (toLowerCase (hs ! k))) ts
        \<and> (\<forall>j < k. \<not> matchesAnyTerm (trim (toLowerCase (hs ! j))) ts)"
proof (induction hs arbitrary: i)
  case Nil
  then show ?case by simp
next
  case (Cons h hs)
  show ?case
  proof (cases "matchesAnyTerm (trim (toLowerCase h)) ts")
    case True
    then have "findColumnIndexFrom i (h # hs) ts = i + int 0" by simp
    with True show ?thesis by (intro exI[of _ 0]) simp
  next
    case False
    with Cons.prems have "findColumnIndexFrom (i + 1) hs ts \<noteq> - 1" and "0 \<le> i + 1" by auto
    from Cons.IH[OF this(2) this(1)] obtain k where k: "k < length hs"
      "findColumnIndexFrom (i + 1) hs ts = i + 1 + int k"
      "matchesAnyTerm (trim (toLowerCase (hs ! k))) ts"
      "\<forall>j < k. \<not> matchesAnyTerm (trim (toLowerCase (hs ! j))) ts" by blast
    have "\<forall>j < Suc k. \<not> matchesAnyTerm (trim (toLowerCase ((h # hs) ! j))) ts"
      using False k(4) by (auto simp: less_Suc_eq_0_disj)
    with k False show ?thesis by (intro exI[of _ "Suc k"]) simp
  qed
qed

text \<open>
  Claim C4, as amended. \<open>findColumnIndex\<close> returns the index of the first header, in
  document order, whose lowercased and trimmed text contains any of the lowercased
  candidate terms, whatever the rank of that candidate: every candidate is tested
  against one header before the next header is looked at. It returns \<open>-1\<close> exactly
  when no header contains any candidate.
\<close>

theorem findColumnIndex_first_matching_header:
  "(findColumnIndex headers searchTerms = - 1 \<longleftrightarrow>
      (\<forall>h \<in> set headers. \<forall>t \<in> set searchTerms.
         \<not> includesStr (trim (toLowerCase h)) (toLowerCase t))) \<and>
   (findColumnIndex headers searchTerms \<noteq> - 1 \<longrightarrow>
      (\<exists>k < length headers. findColumnIndex headers searchTerms = int k
         \<and> (\<exists>t \<in> set searchTerms. includesStr (trim (toLowerCase (headers ! k))) (toLowerCase t))
         \<and> (\<forall>j < k. \<forall>t \<in> set searchTerms.
               \<not> includesStr (trim (toLowerCase (headers ! j))) (toLowerCase t))))"
proof (intro conjI impI)
  show "findColumnIndex headers searchTerms = - 1 \<longleftrightarrow>
      (\<forall>h \<in> set headers. \<forall>t \<in> set searchTerms.
         \<not> includesStr (trim (toLowerCase h)) (toLowerCase t))"
    by (simp add: findColumnIndex_def findColumnIndexFrom_none matchesAnyTerm_iff)
next
  assume "findColumnIndex headers searchTerms \<noteq> - 1"
  then have "findColumnIndexFrom 0 headers searchTerms \<noteq> - 1"
    by (simp add: findColumnIndex_def)
  from findColumnIndexFrom_first[OF _ this]
  show "\<exists>k < length headers. findColumnIndex headers searchTerms = int k
         \<and> (\<exists>t \<in> set searchTerms. includesStr (trim (toLowerCase (headers ! k))) (toLowerCase t))
         \<and> (\<forall>j < k. \<forall>t \<in> set searchTerms.
               \<not> includesStr (trim (toLowerCase (headers ! j))) (toLowerCase t))"
    by (simp add: findColumnIndex_def matchesAnyTerm_iff)
qed

text \<open>The theorem at two headers and the candidates of the contacts role.\<close>

theorem findColumnIndex_first_matching_header_witness:
  "findColumnIndex [''Contact Rate'', ''Contacts''] [''contacts'', ''contact''] \<noteq> - 1 \<and>
   (\<exists>k < length [''Contact Rate'', ''Contacts''].
       findColumnIndex [''Contact Rate'', ''Contacts''] [''contacts'', ''contact''] = int k
     \<and> (\<exists>t \<in> set [''contacts'', ''contact''].
           includesStr (trim (toLowerCase ([''Contact Rate'', ''Contacts''] ! k))) (toLowerCase t)))"
proof -
  have ne: "findColumnIndex [''Contact Rate'', ''Contacts''] [''contacts'', ''contact''] \<noteq> - 1"
    by code_simp
  from findColumnIndex_first_matching_header
         [of "[''Contact Rate'', ''Contacts'']" "[''contacts'', ''contact'']"] ne
  show ?thesis by blast
qed

text \<open>
  Claim C4 as stated fails: the header \<open>Contact Rate\<close> contains only the second
  candidate and \<open>Contacts\<close> contains the first, yet the earlier header wins.
\<close>

theorem findColumnIndex_candidate_priority_counterexample:
  "findColumnIndex [''Contact Rate'', ''Contacts''] [''contacts'', ''contact''] = 0 \<and>
   candidateFirstIndex [''Contact Rate'', ''Contacts''] [''contacts'', ''contact''] = 1"
  by code_simp

section \<open>Aggregation Extractor: proofs\<close>











lemma upsert_preserves:
  assumes "\<forall>e \<in> set m. P (snd e)" and "P (f d)" and "\<And>v. P v \<Longrightarrow> P (f v)"
  shows "\<forall>e \<in> set (upsert k d f m). P (snd e)"
  using assms(1) by (induction m) (auto intro: assms(2,3))










lemma findIndexFrom_none:
  "0 \<le> i \<Longrightarrow> findIndexFrom i p xs = - 1 \<longleftrightarrow> (\<forall>x \<in> set xs. \<not> p x)"
  by (induction xs arbitrary: i) auto

lemma findIndex_none: "findIndex p xs = - 1 \<longleftrightarrow> (\<forall>x \<in> set xs. \<not> p x)"
  by (simp add: findIndex_def findIndexFrom_none)

lemma findColumnIndex_none:
  "findColumnIndex hs ts = - 1 \<longleftrightarrow>
     (\<forall>h \<in> set hs. \<forall>t \<in> set ts. \<not> includesStr (trim (toLowerCase h)) (toLowerCase t))"
  by (simp add: findColumnIndex_def findColumnIndexFrom_none matchesAnyTerm_iff)

lemma extractTable_no_agent:
  assumes "headerRow t = Some headerCells"
    and "\<forall>h \<in> set headerCells. toLowerCase (trim h) \<noteq> ''user'' \<and> toLowerCase (trim h) \<noteq> ''agent''"
  shows "extractTable acc t = acc"
proof -
  have "findIndex (\<lambda>h. h = ''user'' \<or> h = ''agent'')
          (map (\<lambda>th. toLowerCase (trim th)) headerCells) = - 1"
    using assms(2) by (simp add: findIndex_none)
  then show ?thesis
    using assms(1) by (simp add: extractTable_def Let_def)
qed

lemma extractTable_no_thead: "headerRow t = None \<Longrightarrow> extractTable acc t = acc"
  by (simp add: extractTable_def)

lemma list_step_All:
  assumes "\<forall>e \<in> set m. byList (snd e) = [(''All'', totals (snd e))]"
  shows "\<forall>e \<in> set (upsert agentName \<lparr>byList = [], totals = zeroCounters\<rparr>
            (\<lambda>agentData.
               \<lparr>byList = upsert ''All'' zeroCounters (\<lambda>listData. addCounters listData r)
                           (byList agentData),
                totals = addCounters (totals agentData) r\<rparr>) m).
           byList (snd e) = [(''All'', totals (snd e))]"
  by (rule upsert_preserves[OF assms]) simp_all

lemma extractRow_no_list_agents:
  assumes "\<forall>e \<in> set (agents acc). byList (snd e) = [(''All'', totals (snd e))]"
  shows "\<forall>e \<in> set (agents (extractRow u (- 1) d c a l s acc cells)).
           byList (snd e) = [(''All'', totals (snd e))]"
proof (cases "length cells < 3")
  case True
  with assms show ?thesis by (simp add: extractRow_def)
next
  case False
  have eq: "agents (extractRow u (- 1) d c a l s acc cells) =
          upsert (cellTrimOr cells u ''Unknown'') \<lparr>byList = [], totals = zeroCounters\<rparr>
            (\<lambda>agentData.
               \<lparr>byList = upsert ''All'' zeroCounters
                           (\<lambda>listData. addCounters listData
                              \<lparr>dialed = (if d \<noteq> - 1 then parseNum (cellText cells d) else Fin 0),
                               contacts = (if c \<noteq> - 1 then parseNum (cellText cells c) else Fin 0),
                               appt = (if a \<noteq> - 1 then parseNum (cellText cells a) else Fin 0),
                               lxfer = (if l \<noteq> - 1 then parseNum (cellText cells l) else Fin 0),
                               success = (if s \<noteq> - 1 then parseNum (cellText cells s) else Fin 0)\<rparr>)
                           (byList agentData),
                totals = addCounters (totals agentData)
                           \<lparr>dialed = (if d \<noteq> - 1 then parseNum (cellText cells d) else Fin 0),
                            contacts = (if c \<noteq> - 1 then parseNum (cellText cells c) else Fin 0),
                            appt = (if a \<noteq> - 1 then parseNum (cellText cells a) else Fin 0),
                            lxfer = (if l \<noteq> - 1 then parseNum (cellText cells l) else Fin 0),
                            success = (if s \<noteq> - 1 then parseNum (cellText cells s) else Fin 0)\<rparr>\<rparr>)
            (agents acc)"
    using False unfolding extractRow_def Let_def by simp
  show ?thesis
    unfolding eq by (rule list_step_All[OF assms])
qed

lemma extractRow_no_list_names:
  "listNames (extractRow u (- 1) d c a l s acc cells) =
     (if length cells < 3 then listNames acc else setAdd ''All'' (listNames acc))"
  by (simp add: extractRow_def Let_def)

lemma foldl_extractRow_no_list_agents:
  "\<forall>e \<in> set (agents acc). byList (snd e) = [(''All'', totals (snd e))] \<Longrightarrow>
   \<forall>e \<in> set (agents (foldl (extractRow u (- 1) d c a l s) acc rows)).
     byList (snd e) = [(''All'', totals (snd e))]"
proof (induction rows arbitrary: acc)
  case Nil
  then show ?case by simp
next
  case (Cons r rows)
  from Cons.IH[OF extractRow_no_list_agents[OF Cons.prems]] show ?case by simp
qed

lemma foldl_extractRow_no_list_names:
  "set (listNames (foldl (extractRow u (- 1) d c a l s) acc rows)) =
     set (listNames acc) \<union> (if \<exists>cells \<in> set rows. 3 \<le> length cells then {''All''} else {})"
proof (induction rows arbitrary: acc)
  case Nil
  then show ?case by simp
next
  case (Cons r rows)
  show ?case
    by (simp add: Cons.IH extractRow_no_list_names setAdd_def not_less) auto
qed

text \<open>
  Claim C10. In aggregation extraction the agent/user role resolves only by equality of
  the lowercased, trimmed header with \<open>user\<close> or \<open>agent\<close>, while the list role
  and the counter roles resolve by substring matching; so a table whose headers contain
  but do not equal those words contributes nothing to the aggregation, wherever it
  stands among the tables.
\<close>

theorem extractTable_agent_role_exact:
  "(headerRow t = Some headerCells \<and>
    (\<forall>h \<in> set headerCells. toLowerCase (trim h) \<noteq> ''user'' \<and> toLowerCase (trim h) \<noteq> ''agent'')
      \<longrightarrow> extractTable acc t = acc
          \<and> extractAllTableData (before @ t # after) = extractAllTableData (before @ after)) \<and>
   (findIndex (\<lambda>h. h = ''user'' \<or> h = ''agent'') headers \<noteq> - 1
      \<longleftrightarrow> (\<exists>h \<in> set headers. h = ''user'' \<or> h = ''agent'')) \<and>
   (findIndex (\<lambda>h. includesStr h ''list'') headers \<noteq> - 1
      \<longleftrightarrow> (\<exists>h \<in> set headers. includesStr h ''list'')) \<and>
   (findColumnIndex headers searchTerms \<noteq> - 1
      \<longleftrightarrow> (\<exists>h \<in> set headers. \<exists>s \<in> set searchTerms.
             includesStr (trim (toLowerCase h)) (toLowerCase s)))"
proof (intro conjI impI)
  assume a: "headerRow t = Some headerCells \<and>
    (\<forall>h \<in> set headerCells. toLowerCase (trim h) \<noteq> ''user'' \<and> toLowerCase (trim h) \<noteq> ''agent'')"
  then have skip: "\<And>acc. extractTable acc t = acc"
    using extractTable_no_agent by blast
  show "extractTable acc t = acc" by (rule skip)
  show "extractAllTableData (before @ t # after) = extractAllTableData (before @ after)"
    by (simp add: extractAllTableData_def skip)
next
  show "findIndex (\<lambda>h. h = ''user'' \<or> h = ''agent'') headers \<noteq> - 1
      \<longleftrightarrow> (\<exists>h \<in> set headers. h = ''user'' \<or> h = ''agent'')"
    by (simp add: findIndex_none)
  show "findIndex (\<lambda>h. includesStr h ''list'') headers \<noteq> - 1
      \<longleftrightarrow> (\<exists>h \<in> set headers. includesStr h ''list'')"
    by (simp add: findIndex_none)
  show "findColumnIndex headers searchTerms \<noteq> - 1
      \<longleftrightarrow> (\<exists>h \<in> set headers. \<exists>s \<in> set searchTerms.
             includesStr (trim (toLowerCase h)) (toLowerCase s))"
    by (simp add: findColumnIndex_none)
qed

text \<open>The theorem at a table whose first header is \<open>Agent Name\<close>.\<close>

theorem extractTable_agent_role_exact_witness:
  "headerRow agentNameTable = Some [''Agent Name'', ''List'', ''Dialed''] \<and>
   includesStr (toLowerCase (trim ''Agent Name'')) ''agent'' \<and>
   toLowerCase (trim ''Agent Name'') \<noteq> ''agent'' \<and>
   extractTable \<lparr>agents = [], listNames = []\<rparr> agentNameTable = \<lparr>agents = [], listNames = []\<rparr> \<and>
   extractAllTableData ([bobListA] @ agentNameTable # [bobListB]) =
     extractAllTableData ([bobListA] @ [bobListB])"
proof -
  have h: "headerRow agentNameTable = Some [''Agent Name'', ''List'', ''Dialed'']"
    by (simp add: agentNameTable_def)
  have n: "\<forall>h \<in> set [''Agent Name'', ''List'', ''Dialed''].
             toLowerCase (trim h) \<noteq> ''user'' \<and> toLowerCase (trim h) \<noteq> ''agent''"
    by code_simp
  have i: "includesStr (toLowerCase (trim ''Agent Name'')) ''agent''"
    by code_simp
  from extractTable_agent_role_exact
         [of agentNameTable "[''Agent Name'', ''List'', ''Dialed'']"
             "\<lparr>agents = [], listNames = []\<rparr>" "[bobListA]" "[bobListB]"] h n i
  show ?thesis by simp
qed


text \<open>
  Claim C5, as amended. A table none of whose headers resolves the agent/user role
  contributes nothing to the aggregation. When the agent/user role resolves and no header
  resolves the list role, every row of at least three cells is recorded under the
  partition name \<open>All\<close>: extracted on its own, the table yields the list names
  \<open>{All}\<close> and gives every agent the single list entry \<open>All\<close>, equal to the
  agent's totals.
\<close>

theorem extractTable_role_absence:
  assumes "headerRow t = Some headerCells"
  shows
  "((\<forall>h \<in> set headerCells. toLowerCase (trim h) \<noteq> ''user'' \<and> toLowerCase (trim h) \<noteq> ''agent'')
      \<longrightarrow> extractTable acc t = acc) \<and>
   ((\<exists>h \<in> set headerCells. toLowerCase (trim h) = ''user'' \<or> toLowerCase (trim h) = ''agent'') \<and>
    (\<forall>h \<in> set headerCells. \<not> includesStr (toLowerCase (trim h)) ''list'')
      \<longrightarrow> set (listNames (extractTable \<lparr>agents = [], listNames = []\<rparr> t)) =
            (if \<exists>cells \<in> set (bodyRows t). 3 \<le> length cells then {''All''} else {})
          \<and> (\<forall>e \<in> set (agents (extractTable \<lparr>agents = [], listNames = []\<rparr> t)).
                byList (snd e) = [(''All'', totals (snd e))]))"
proof (intro conjI impI)
  assume "\<forall>h \<in> set headerCells. toLowerCase (trim h) \<noteq> ''user'' \<and> toLowerCase (trim h) \<noteq> ''agent''"
  with assms show "extractTable acc t = acc" by (rule extractTable_no_agent)
next
  assume a: "(\<exists>h \<in> set headerCells. toLowerCase (trim h) = ''user'' \<or> toLowerCase (trim h) = ''agent'') \<and>
    (\<forall>h \<in> set headerCells. \<not> includesStr (toLowerCase (trim h)) ''list'')"
  have u: "findIndex (\<lambda>h. h = ''user'' \<or> h = ''agent'')
             (map (\<lambda>th. toLowerCase (trim th)) headerCells) \<noteq> - 1"
    using a by (simp add: findIndex_none)
  have l: "findIndex (\<lambda>h. includesStr h ''list'')
             (map (\<lambda>th. toLowerCase (trim th)) headerCells) = - 1"
    using a by (simp add: findIndex_none)
  obtain u' d c a' l' s where
    eq: "extractTable \<lparr>agents = [], listNames = []\<rparr> t =
           foldl (extractRow u' (- 1) d c a' l' s) \<lparr>agents = [], listNames = []\<rparr> (bodyRows t)"
    using assms u l by (simp add: extractTable_def Let_def)
  show "set (listNames (extractTable \<lparr>agents = [], listNames = []\<rparr> t)) =
            (if \<exists>cells \<in> set (bodyRows t). 3 \<le> length cells then {''All''} else {})"
    unfolding eq by (simp add: foldl_extractRow_no_list_names)
  show "\<forall>e \<in> set (agents (extractTable \<lparr>agents = [], listNames = []\<rparr> t)).
                byList (snd e) = [(''All'', totals (snd e))]"
    unfolding eq by (rule foldl_extractRow_no_list_agents) simp
qed

text \<open>The theorem at a table with the headers User, Dialed and Contacts.\<close>

theorem extractTable_role_absence_witness:
  "headerRow noListTable = Some [''User'', ''Dialed'', ''Contacts''] \<and>
   toLowerCase (trim ''User'') = ''user'' \<and>
   set (listNames (extractTable \<lparr>agents = [], listNames = []\<rparr> noListTable)) = {''All''} \<and>
   agents (extractTable \<lparr>agents = [], listNames = []\<rparr> noListTable) =
     [(''Bob'',
       \<lparr>byList = [(''All'', \<lparr>dialed = Fin 10, contacts = Fin 4, appt = Fin 0, lxfer = Fin 0, success = Fin 0\<rparr>)],
        totals = \<lparr>dialed = Fin 10, contacts = Fin 4, appt = Fin 0, lxfer = Fin 0, success = Fin 0\<rparr>\<rparr>)]"
proof -
  have h: "headerRow noListTable = Some [''User'', ''Dialed'', ''Contacts'']"
    by (simp add: noListTable_def)
  have u: "toLowerCase (trim ''User'') = ''user''"
    by code_simp
  have n: "\<forall>h \<in> set [''User'', ''Dialed'', ''Contacts'']. \<not> includesStr (toLowerCase (trim h)) ''list''"
    by code_simp
  have r: "\<exists>cells \<in> set (bodyRows noListTable). 3 \<le> length cells"
    by (simp add: noListTable_def)
  have ag: "agents (extractTable \<lparr>agents = [], listNames = []\<rparr> noListTable) =
     [(''Bob'',
       \<lparr>byList = [(''All'', \<lparr>dialed = Fin 10, contacts = Fin 4, appt = Fin 0, lxfer = Fin 0, success = Fin 0\<rparr>)],
        totals = \<lparr>dialed = Fin 10, contacts = Fin 4, appt = Fin 0, lxfer = Fin 0, success = Fin 0\<rparr>\<rparr>)]"
    by code_simp
  from extractTable_role_absence[OF h, of "\<lparr>agents = [], listNames = []\<rparr>"] u n r
  have "set (listNames (extractTable \<lparr>agents = [], listNames = []\<rparr> noListTable)) = {''All''}"
    by simp
  with h u ag show ?thesis by simp
qed

text \<open>
  Claim C5 as stated fails: without a list column the row of Bob is recorded under
  \<open>All\<close>, not under \<open>Default\<close>.
\<close>

theorem extract_missing_list_role_counterexample:
  "extractAllTableData [noListTable] =
     \<lparr>agents =
        [(''Bob'',
          \<lparr>byList = [(''All'', \<lparr>dialed = Fin 10, contacts = Fin 4, appt = Fin 0, lxfer = Fin 0, success = Fin 0\<rparr>)],
           totals = \<lparr>dialed = Fin 10, contacts = Fin 4, appt = Fin 0, lxfer = Fin 0, success = Fin 0\<rparr>\<rparr>)],
      listNames = [''All'']\<rparr> \<and> ''All'' \<noteq> ''Default''"
  by code_simp

section \<open>Numeric Parser: proofs\<close>













section \<open>Metric Computer: proofs\<close>








text \<open>
  Claim C6, as amended. For every counter tuple the pivot renderer and the CSV
  serializer compute the same ratio values, each by the Metric Computer formula; the
  pivot view prints every ratio with one decimal and a trailing percent sign, the CSV
  export with two decimals and a trailing percent sign; the raw counters are printed
  alike.
\<close>

theorem pivot_csv_same_values:
  "renderMetricValues data = csvMetricValues data \<and>
   csvMetricValues data =
     \<lparr>contactPct = spec_pct (contacts data) (dialed data),
      apptPctC = spec_pct (appt data) (contacts data),
      lxferPctC = spec_pct (lxfer data) (contacts data),
      successPctC = spec_pct (orZero (success data)) (contacts data),
      apptPctD = spec_pct (appt data) (dialed data),
      lxferPctD = spec_pct (lxfer data) (dialed data),
      successPctD = spec_pct (orZero (success data)) (dialed data)\<rparr> \<and>
   map (\<lambda>i. renderMetricCells toStr data addDivider ! i) [2, 4, 5, 7, 8, 10, 11] =
     map (\<lambda>p. toFixed toStr 1 p @ ''%'')
       [contactPct (csvMetricValues data), apptPctC (csvMetricValues data),
        apptPctD (csvMetricValues data), lxferPctC (csvMetricValues data),
        lxferPctD (csvMetricValues data), successPctC (csvMetricValues data),
        successPctD (csvMetricValues data)] \<and>
   map (\<lambda>i. csvFields toStr data ! i) [2, 4, 5, 7, 8, 10, 11] =
     map (\<lambda>p. toFixed toStr 2 p @ ''%'')
       [contactPct (csvMetricValues data), apptPctC (csvMetricValues data),
        apptPctD (csvMetricValues data), lxferPctC (csvMetricValues data),
        lxferPctD (csvMetricValues data), successPctC (csvMetricValues data),
        successPctD (csvMetricValues data)] \<and>
   map (\<lambda>i. renderMetricCells toStr data addDivider ! i) [0, 1, 3, 6, 9] =
     map (\<lambda>i. csvFields toStr data ! i) [0, 1, 3, 6, 9]"
proof (intro conjI)
  show v: "renderMetricValues data = csvMetricValues data"
    by (simp add: renderMetricValues_def csvMetricValues_def)
  show "csvMetricValues data =
     \<lparr>contactPct = spec_pct (contacts data) (dialed data),
      apptPctC = spec_pct (appt data) (contacts data),
      lxferPctC = spec_pct (lxfer data) (contacts data),
      successPctC = spec_pct (orZero (success data)) (contacts data),
      apptPctD = spec_pct (appt data) (dialed data),
      lxferPctD = spec_pct (lxfer data) (dialed data),
      successPctD = spec_pct (orZero (success data)) (dialed data)\<rparr>"
    by (simp add: csvMetricValues_def spec_pct_def)
  show "map (\<lambda>i. renderMetricCells toStr data addDivider ! i) [2, 4, 5, 7, 8, 10, 11] =
     map (\<lambda>p. toFixed toStr 1 p @ ''%'')
       [contactPct (csvMetricValues data), apptPctC (csvMetricValues data),
        apptPctD (csvMetricValues data), lxferPctC (csvMetricValues data),
        lxferPctD (csvMetricValues data), successPctC (csvMetricValues data),
        successPctD (csvMetricValues data)]"
    by (simp add: renderMetricCells_def Let_def v)
  show "map (\<lambda>i. csvFields toStr data ! i) [2, 4, 5, 7, 8, 10, 11] =
     map (\<lambda>p. toFixed toStr 2 p @ ''%'')
       [contactPct (csvMetricValues data), apptPctC (csvMetricValues data),
        apptPctD (csvMetricValues data), lxferPctC (csvMetricValues data),
        lxferPctD (csvMetricValues data), successPctC (csvMetricValues data),
        successPctD (csvMetricValues data)]"
    by (simp add: csvFields_def Let_def)
  show "map (\<lambda>i. renderMetricCells toStr data addDivider ! i) [0, 1, 3, 6, 9] =
     map (\<lambda>i. csvFields toStr data ! i) [0, 1, 3, 6, 9]"
    by (simp add: renderMetricCells_def csvFields_def Let_def)
qed

text \<open>
  Claim C6 as stated fails: for 1 contact in 3 dialed the pivot cell reads
  \<open>33.3%\<close> and the CSV field \<open>33.33%\<close>.
\<close>

theorem pivot_csv_precision_counterexample:
  "renderMetricCells (\<lambda>q. []) \<lparr>dialed = Fin 3, contacts = Fin 1, appt = Fin 0, lxfer = Fin 0, success = Fin 0\<rparr> False ! 2
     = ''33.3%'' \<and>
   csvFields (\<lambda>q. []) \<lparr>dialed = Fin 3, contacts = Fin 1, appt = Fin 0, lxfer = Fin 0, success = Fin 0\<rparr> ! 2
     = ''33.33%''"
  by code_simp

section \<open>CSV Serializer: proofs\<close>



lemma digitsOf_nonempty: "digitsOf n \<noteq> []"
  by (subst digitsOf.simps) simp



























section \<open>Column Injector: proofs\<close>

lemma length_insertAfterCell: "length (insertAfterCell k new row) = Suc (length row)"
  by (induction row) auto

lemma length_foldl_insert:
  "length (foldl (\<lambda>row ins. insertAfterCell (key ins) (txt ins) row) row0 insertions)
     = length row0 + length insertions"
  by (induction insertions arbitrary: row0) (simp_all add: length_insertAfterCell)

lemma length_liveRow: "length (liveRow cells) = length cells"
  by (simp add: liveRow_def)

lemma length_injectHeaderCells:
  "length (injectHeaderCells insertions headerCells) = length headerCells + length insertions"
  by (simp add: injectHeaderCells_def length_foldl_insert length_liveRow)

lemma length_injectRowCells:
  "length (injectRowCells toStr insertions cells)
     = (if cells = [] then 0 else length cells + length insertions)"
  by (simp add: injectRowCells_def length_foldl_insert length_liveRow)

lemma injectRowCells_Nil: "injectRowCells toStr insertions [] = []"
  by (simp add: injectRowCells_def)

lemma processTable_cases:
  "processTable toStr cfg (t, flag) = (t, flag) \<or>
   (\<exists>hs ins. headerRow t = Some hs \<and>
      processTable toStr cfg (t, flag) =
        (\<lparr>headerRow = Some (injectHeaderCells ins hs),
          bodyRows = map (injectRowCells toStr ins) (bodyRows t)\<rparr>, True))"
  unfolding processTable_def Let_def
  by (cases "headerRow t") auto

lemma parseNum_missing_cell:
  "\<not> (0 \<le> idx \<and> idx < int (length cells)) \<Longrightarrow> parseNum (cellText cells idx) = Fin 0"
  by (auto simp: cellText_def parseNum_def)

lemma processTable_guard:
  "headerRow t = Some hs \<Longrightarrow> alreadyInjected (map trim hs) \<Longrightarrow>
     processTable toStr cfg (t, flag) = (t, flag)"
  by (simp add: processTable_def)

text \<open>
  Claim C7, as amended. During column injection a body row with no cells at all is left
  untouched. Every other body row, also one with fewer cells than the resolved role
  indices, receives exactly as many derived cells as the header row receives header
  cells; a counter cell that is missing is read as 0. The pass keeps every row: it never
  aborts because of a single bad row.
\<close>

theorem processTable_row_tolerance:
  "length (bodyRows (fst (processTable toStr cfg (t, flag)))) = length (bodyRows t) \<and>
   (\<forall>i < length (bodyRows t).
      (bodyRows t ! i = [] \<longrightarrow> bodyRows (fst (processTable toStr cfg (t, flag))) ! i = []) \<and>
      (bodyRows t ! i \<noteq> [] \<longrightarrow>
         (\<forall>hs hs'. headerRow t = Some hs \<longrightarrow>
            headerRow (fst (processTable toStr cfg (t, flag))) = Some hs' \<longrightarrow>
            length (bodyRows (fst (processTable toStr cfg (t, flag))) ! i)
              = length (bodyRows t ! i) + (length hs' - length hs)))) \<and>
   (\<not> (0 \<le> idx \<and> idx < int (length cells)) \<longrightarrow> parseNum (cellText cells idx) = Fin 0)"
proof -
  from processTable_cases[of toStr cfg t flag]
  consider (same) "processTable toStr cfg (t, flag) = (t, flag)"
    | (inj) hs ins where "headerRow t = Some hs"
        "processTable toStr cfg (t, flag) =
          (\<lparr>headerRow = Some (injectHeaderCells ins hs),
            bodyRows = map (injectRowCells toStr ins) (bodyRows t)\<rparr>, True)"
    by blast
  then have "length (bodyRows (fst (processTable toStr cfg (t, flag)))) = length (bodyRows t) \<and>
   (\<forall>i < length (bodyRows t).
      (bodyRows t ! i = [] \<longrightarrow> bodyRows (fst (processTable toStr cfg (t, flag))) ! i = []) \<and>
      (bodyRows t ! i \<noteq> [] \<longrightarrow>
         (\<forall>hs hs'. headerRow t = Some hs \<longrightarrow>
            headerRow (fst (processTable toStr cfg (t, flag))) = Some hs' \<longrightarrow>
            length (bodyRows (fst (processTable toStr cfg (t, flag))) ! i)
              = length (bodyRows t ! i) + (length hs' - length hs))))"
  proof cases
    case same
    then show ?thesis by simp
  next
    case inj
    then show ?thesis
      by (auto simp: injectRowCells_Nil length_injectRowCells length_injectHeaderCells)
  qed
  then show ?thesis
    using parseNum_missing_cell by blast
qed

text \<open>The theorem at a table with a full row, a row of one cell and a row of no cells.\<close>

theorem processTable_row_tolerance_witness:
  "length (bodyRows (fst (processTable (\<lambda>q. []) defaultLensedColumns (dialedOnlyTable, False)))) = 3 \<and>
   bodyRows dialedOnlyTable ! 2 = [] \<and>
   bodyRows (fst (processTable (\<lambda>q. []) defaultLensedColumns (dialedOnlyTable, False))) ! 2 = [] \<and>
   bodyRows dialedOnlyTable ! 1 = [''Al''] \<and>
   headerRow dialedOnlyTable = Some [''User'', ''Dialed'', ''APPT''] \<and>
   headerRow (fst (processTable (\<lambda>q. []) defaultLensedColumns (dialedOnlyTable, False)))
     = Some [''User'', ''Dialed'', ''APPT'', ''APPT%(D)''] \<and>
   length (bodyRows (fst (processTable (\<lambda>q. []) defaultLensedColumns (dialedOnlyTable, False))) ! 1) = 2 \<and>
   parseNum (cellText [''Al''] 2) = Fin 0"
proof -
  have r: "bodyRows dialedOnlyTable = [[''Bob'', ''50'', ''3''], [''Al''], []]"
    and h: "headerRow dialedOnlyTable = Some [''User'', ''Dialed'', ''APPT'']"
    by (simp_all add: dialedOnlyTable_def)
  have h': "headerRow (fst (processTable (\<lambda>q. []) defaultLensedColumns (dialedOnlyTable, False)))
     = Some [''User'', ''Dialed'', ''APPT'', ''APPT%(D)'']"
    by code_simp
  note T = processTable_row_tolerance
         [of "\<lambda>q. []" defaultLensedColumns dialedOnlyTable False 2 "[''Al'']"]
  from T have 1: "length (bodyRows (fst (processTable (\<lambda>q. []) defaultLensedColumns (dialedOnlyTable, False)))) = 3"
    by (simp add: r)
  from T have A: "\<forall>i < length (bodyRows dialedOnlyTable).
      (bodyRows dialedOnlyTable ! i = [] \<longrightarrow>
         bodyRows (fst (processTable (\<lambda>q. []) defaultLensedColumns (dialedOnlyTable, False))) ! i = []) \<and>
      (bodyRows dialedOnlyTable ! i \<noteq> [] \<longrightarrow>
         (\<forall>hs hs'. headerRow dialedOnlyTable = Some hs \<longrightarrow>
            headerRow (fst (processTable (\<lambda>q. []) defaultLensedColumns (dialedOnlyTable, False))) = Some hs' \<longrightarrow>
            length (bodyRows (fst (processTable (\<lambda>q. []) defaultLensedColumns (dialedOnlyTable, False))) ! i)
              = length (bodyRows dialedOnlyTable ! i) + (length hs' - length hs)))"
    by (elim conjE)
  from A[THEN spec, of 2] have 2:
    "bodyRows (fst (processTable (\<lambda>q. []) defaultLensedColumns (dialedOnlyTable, False))) ! 2 = []"
    by (simp add: r)
  from A[THEN spec, of 1] h h' have 3:
    "length (bodyRows (fst (processTable (\<lambda>q. []) defaultLensedColumns (dialedOnlyTable, False))) ! 1) = 2"
    by (simp add: r)
  from T have 4: "parseNum (cellText [''Al''] 2) = Fin 0"
    by simp
  from 1 2 3 4 h h' show ?thesis
    by (simp add: r)
qed

text \<open>
  Claim C7 as stated fails: the dialed and appointment roles resolve to the indices 1
  and 2, the second row has a single cell, and a derived cell is inserted into it all
  the same.
\<close>

theorem processTable_short_row_counterexample:
  "findColumnIndex (map trim [''User'', ''Dialed'', ''APPT'']) columns_dialed = 1 \<and>
   findColumnIndex (map trim [''User'', ''Dialed'', ''APPT'']) columns_appt = 2 \<and>
   bodyRows dialedOnlyTable = [[''Bob'', ''50'', ''3''], [''Al''], []] \<and>
   bodyRows (fst (processTable (\<lambda>q. []) defaultLensedColumns (dialedOnlyTable, False)))
     = [[''Bob'', ''50'', ''3'', ''6.00%''], [''Al'', ''0.00%''], []]"
  by code_simp

text \<open>
  Claim C1. Invoking \<open>processTable\<close> twice should leave the derived columns of one
  invocation. On a table where only the dialed denominator resolves it does not: the
  guard looks for the three \<open>(C)\<close> markers only, so the second invocation injects
  \<open>APPT%(D)\<close> a second time.
\<close>

theorem processTable_twice_duplicates_column:
  "headerRow dialedOnlyTable = Some [''User'', ''Dialed'', ''APPT''] \<and>
   headerRow (fst (processTable (\<lambda>q. []) defaultLensedColumns (dialedOnlyTable, False)))
     = Some [''User'', ''Dialed'', ''APPT'', ''APPT%(D)''] \<and>
   headerRow (fst (processTable (\<lambda>q. []) defaultLensedColumns
                (processTable (\<lambda>q. []) defaultLensedColumns (dialedOnlyTable, False))))
     = Some [''User'', ''Dialed'', ''APPT'', ''APPT%(D)'', ''APPT%(D)'']"
  by code_simp

end
